theory Spec2Isabelle
  imports Complex_Main
begin

section \<open>Order workflow of the craft shop backend\<close>

text \<open>
  The order router (create order, update order status) is embedded as state-passing
  functions over a document store holding the product and the order collection.

  Conventions of the embedding:
  \<^item> a JavaScript Number is an exact rational (\<open>number\<close>); rounding of IEEE doubles is
    not modelled;
  \<^item> a JavaScript string is a list of 8-bit code units (\<open>string\<close>);
  \<^item> a field absent from a JSON body is represented by the empty value of its type
    (empty string, empty list, 0): every check of the router that sees an absent field
    (\<^verbatim>\<open>!username?.trim()\<close>, \<^verbatim>\<open>!items?.length\<close>, \<^verbatim>\<open>!totalAmount\<close>, \<^verbatim>\<open>!address?.street\<close>,
    \<^verbatim>\<open>includes(paymentMethod)\<close>, \<^verbatim>\<open>if (trackingNumber)\<close>) takes the same branch for the
    empty value;
  \<^item> document ids are well-formed ObjectIds, represented by natural numbers; the id of
    a new order document is supplied by the caller of \<open>createOrder\<close>;
  \<^item> the document store is reliable: \<^verbatim>\<open>save()\<close> and \<^verbatim>\<open>findById()\<close> do not throw;
  \<^item> the clock is a parameter (\<open>now\<close>, in milliseconds).
\<close>

subsection \<open>Data model\<close>

type_synonym number = rat
type_synonym object_id = nat
type_synonym date = int

datatype product_status = Available | NotAvailable

datatype category = Frames | WallHanging | Bag | PenStand | Jewellery | Diyas | BottleArt

text \<open>models/Product.js\<close>

record product =
  name :: string
  quantity :: number
  price :: number
  image_file :: string
  status :: product_status
  category :: category
  offer :: number

text \<open>A cart item of the request body: \<^verbatim>\<open>{_id, name, quantity, price, offer}\<close>.\<close>

record item =
  item_id :: object_id
  item_name :: string
  item_quantity :: number
  item_price :: number
  item_offer :: number

record address =
  street :: string
  city :: string
  state :: string
  postalCode :: string

text \<open>The body of \<^verbatim>\<open>POST /\<close>.\<close>

record order_request =
  username :: string
  fullName :: string
  email :: string
  phone :: string
  items :: "item list"
  totalAmount :: number
  address :: address
  paymentMethod :: string

datatype order_status = Pending | Processing | Shipped | Delivered | Cancelled

text \<open>
  Modelled from the spec: the Order schema (models/Order.js) is not part of the sources.
  The record has the fields the router passes to \<^verbatim>\<open>new Order({...})\<close> and the two
  optional fields the status update writes; a saved document is read back as saved.
\<close>

record order =
  order_username :: string
  order_fullName :: string
  order_email :: string
  order_phone :: string
  order_items :: "item list"
  order_totalAmount :: number
  order_address :: address
  order_paymentMethod :: string
  order_deliveryDate :: date
  order_status :: order_status
  order_orderDate :: date
  order_trackingNumber :: "string option"
  order_notes :: "string option"

type_synonym products = "object_id \<rightharpoonup> product"

record store =
  products :: products
  orders :: "object_id \<rightharpoonup> order"

text \<open>The body of \<^verbatim>\<open>PATCH /:orderId/status\<close>.\<close>

record status_request =
  req_status :: string
  req_trackingNumber :: string
  req_notes :: string

text \<open>The messages of the router, one constructor per message.\<close>

datatype error =
    CustomerInfoIncomplete
  | NoItems
  | InvalidTotalAmount
  | AddressIncomplete
  | InvalidPaymentMethod
  | InvalidEmailFormat
  | InvalidPhoneFormat
  | ProductNotFound string
  | ProductNotAvailable string
  | InsufficientStock string number
  | PriceOrOfferMismatch string
  | TotalAmountMismatch
  | InvalidOrderStatus
  | OrderNotFound
  | CannotUpdateCancelledOrder

text \<open>
  A response: an error with its HTTP status code, the 201 answer of order creation
  (order id, estimated delivery) or the 200 answer of a status update (the order).
\<close>

datatype response =
    Error nat error
  | Created object_id date
  | Updated order

subsection \<open>Strings: trim, toLowerCase and the two regular expressions\<close>

definition isWhiteSpace :: "char \<Rightarrow> bool" where
  "isWhiteSpace c = (of_char c \<in> set [9, 10, 11, 12, 13, 32, 160 :: nat])"

definition isDigit :: "char \<Rightarrow> bool" where
  "isDigit c = (48 \<le> (of_char c :: nat) \<and> (of_char c :: nat) \<le> 57)"

definition trim :: "string \<Rightarrow> string" where
  "trim s = rev (dropWhile isWhiteSpace (rev (dropWhile isWhiteSpace s)))"

definition lowerChar :: "char \<Rightarrow> char" where
  "lowerChar c =
     (let n = (of_char c :: nat)
      in if (65 \<le> n \<and> n \<le> 90) \<or> (192 \<le> n \<and> n \<le> 222 \<and> n \<noteq> 215)
         then char_of (n + 32) else c)"

definition toLowerCase :: "string \<Rightarrow> string" where
  "toLowerCase s = map lowerChar s"

text \<open>
  Regular expressions without back-references, matched against the whole string
  (both expressions of the router are anchored with \<^verbatim>\<open>^\<close> and \<^verbatim>\<open>$\<close>), by derivatives.
\<close>

datatype regex =
    Nothing
  | Epsilon
  | Chars "char \<Rightarrow> bool"
  | Concat regex regex
  | Choice regex regex
  | Repeat regex

fun nullable :: "regex \<Rightarrow> bool" where
  "nullable Nothing = False"
| "nullable Epsilon = True"
| "nullable (Chars P) = False"
| "nullable (Concat r s) = (nullable r \<and> nullable s)"
| "nullable (Choice r s) = (nullable r \<or> nullable s)"
| "nullable (Repeat r) = True"

fun deriv :: "char \<Rightarrow> regex \<Rightarrow> regex" where
  "deriv c Nothing = Nothing"
| "deriv c Epsilon = Nothing"
| "deriv c (Chars P) = (if P c then Epsilon else Nothing)"
| "deriv c (Concat r s) =
     (if nullable r then Choice (Concat (deriv c r) s) (deriv c s)
      else Concat (deriv c r) s)"
| "deriv c (Choice r s) = Choice (deriv c r) (deriv c s)"
| "deriv c (Repeat r) = Concat (deriv c r) (Repeat r)"

fun test :: "regex \<Rightarrow> string \<Rightarrow> bool" where
  "test r [] = nullable r"
| "test r (c # cs) = test (deriv c r) cs"

definition oneOrMore :: "regex \<Rightarrow> regex" where
  "oneOrMore r = Concat r (Repeat r)"

definition optional :: "regex \<Rightarrow> regex" where
  "optional r = Choice Epsilon r"

fun atLeastTimes :: "nat \<Rightarrow> regex \<Rightarrow> regex" where
  "atLeastTimes 0 r = Repeat r"
| "atLeastTimes (Suc n) r = Concat r (atLeastTimes n r)"

text \<open>\<^verbatim>\<open>/^[^\s@]+@[^\s@]+\.[^\s@]+$/\<close>\<close>

definition emailRegex :: regex where
  "emailRegex =
     (let part = oneOrMore (Chars (\<lambda>c. \<not> isWhiteSpace c \<and> c \<noteq> CHR ''@''))
      in Concat part (Concat (Chars (\<lambda>c. c = CHR ''@''))
           (Concat part (Concat (Chars (\<lambda>c. c = CHR ''.'')) part))))"

text \<open>
  \<^verbatim>\<open>/^\+?[\d\s-()]{8,}$/\<close>: in the class, the hyphen after \<^verbatim>\<open>\s\<close> is a literal hyphen.
\<close>

definition phoneRegex :: regex where
  "phoneRegex =
     Concat (optional (Chars (\<lambda>c. c = CHR ''+'')))
       (atLeastTimes 8
          (Chars (\<lambda>c. isDigit c \<or> isWhiteSpace c \<or> c = CHR ''-'' \<or> c = CHR ''('' \<or> c = CHR '')'')))"

subsection \<open>Input validation middleware\<close>

definition validateOrderInput :: "order_request \<Rightarrow> error option" where
  "validateOrderInput req =
     (if trim (username req) = [] \<or> trim (fullName req) = [] \<or>
         trim (email req) = [] \<or> trim (phone req) = []
      then Some CustomerInfoIncomplete
      else if items req = [] then Some NoItems
      else if totalAmount req = 0 \<or> totalAmount req \<le> 0 then Some InvalidTotalAmount
      else if street (address req) = [] \<or> city (address req) = [] \<or>
              state (address req) = [] \<or> postalCode (address req) = []
      then Some AddressIncomplete
      else if paymentMethod req \<notin> set [''Online'', ''COD''] then Some InvalidPaymentMethod
      else if \<not> test emailRegex (email req) then Some InvalidEmailFormat
      else if \<not> test phoneRegex (phone req) then Some InvalidPhoneFormat
      else None)"

subsection \<open>Create new order\<close>

text \<open>
  One iteration of the reservation loop. The product document is read, checked, changed
  and saved; a throw leaves the collection as it is at that moment.
\<close>

definition reserveItem :: "item \<Rightarrow> products \<Rightarrow> error option \<times> products" where
  "reserveItem it ps =
     (case ps (item_id it) of
        None \<Rightarrow> (Some (ProductNotFound (item_name it)), ps)
      | Some p \<Rightarrow>
          if status p \<noteq> Available then (Some (ProductNotAvailable (item_name it)), ps)
          else if quantity p < item_quantity it
          then (Some (InsufficientStock (item_name it) (quantity p)), ps)
          else if price p \<noteq> item_price it \<or> offer p \<noteq> item_offer it
          then (Some (PriceOrOfferMismatch (item_name it)), ps)
          else
            let q = quantity p - item_quantity it;
                p' = p\<lparr>quantity := q, status := (if q = 0 then NotAvailable else status p)\<rparr>
            in (None, ps(item_id it \<mapsto> p')))"

text \<open>\<^verbatim>\<open>for (const item of items)\<close>: the first throw ends the loop.\<close>

fun reserveItems :: "item list \<Rightarrow> products \<Rightarrow> error option \<times> products" where
  "reserveItems [] ps = (None, ps)"
| "reserveItems (it # its) ps =
     (case reserveItem it ps of
        (Some e, ps') \<Rightarrow> (Some e, ps')
      | (None, ps') \<Rightarrow> reserveItems its ps')"

text \<open>\<^verbatim>\<open>items.reduce(..., 0)\<close>\<close>

definition calculatedTotal :: "item list \<Rightarrow> number" where
  "calculatedTotal its =
     foldl (\<lambda>sum it.
              let price = item_price it * item_quantity it;
                  discount = price * (item_offer it / 100)
              in sum + (price - discount)) 0 its"

text \<open>The catch block: every item of the submitted cart is added back.\<close>

definition restoreItem :: "item \<Rightarrow> products \<Rightarrow> products" where
  "restoreItem it ps =
     (case ps (item_id it) of
        None \<Rightarrow> ps
      | Some p \<Rightarrow>
          let q = quantity p + item_quantity it
          in ps(item_id it \<mapsto> p\<lparr>quantity := q, status := (if q > 0 then Available else status p)\<rparr>))"

definition restoreItems :: "item list \<Rightarrow> products \<Rightarrow> products" where
  "restoreItems its ps = foldl (\<lambda>ps it. restoreItem it ps) ps its"

definition newOrder :: "order_request \<Rightarrow> date \<Rightarrow> order" where
  "newOrder req now =
     \<lparr> order_username = trim (username req),
       order_fullName = trim (fullName req),
       order_email = toLowerCase (trim (email req)),
       order_phone = trim (phone req),
       order_items = items req,
       order_totalAmount = totalAmount req,
       order_address = address req,
       order_paymentMethod = paymentMethod req,
       order_deliveryDate = now + 5 * 86400000,
       order_status = Pending,
       order_orderDate = now,
       order_trackingNumber = None,
       order_notes = None \<rparr>"

text \<open>\<^verbatim>\<open>router.post("/", validateOrderInput, ...)\<close>\<close>

definition createOrder ::
  "order_request \<Rightarrow> object_id \<Rightarrow> date \<Rightarrow> store \<Rightarrow> response \<times> store" where
  "createOrder req oid now s =
     (case validateOrderInput req of
        Some e \<Rightarrow> (Error 400 e, s)
      | None \<Rightarrow>
          (case reserveItems (items req) (products s) of
             (Some e, ps') \<Rightarrow>
               (Error 400 e, s\<lparr>products := restoreItems (items req) ps'\<rparr>)
           | (None, ps') \<Rightarrow>
               if \<bar>calculatedTotal (items req) - totalAmount req\<bar> > 1 / 100
               then (Error 400 TotalAmountMismatch,
                     s\<lparr>products := restoreItems (items req) ps'\<rparr>)
               else (Created oid (now + 5 * 86400000),
                     s\<lparr>products := ps', orders := (orders s)(oid \<mapsto> newOrder req now)\<rparr>)))"

subsection \<open>Update order status\<close>

definition parseStatus :: "string \<Rightarrow> order_status option" where
  "parseStatus x =
     (if x = ''Pending'' then Some Pending
      else if x = ''Processing'' then Some Processing
      else if x = ''Shipped'' then Some Shipped
      else if x = ''Delivered'' then Some Delivered
      else if x = ''Cancelled'' then Some Cancelled
      else None)"

text \<open>One iteration of the loop that gives the stock back on cancellation.\<close>

definition cancelItem :: "item \<Rightarrow> products \<Rightarrow> products" where
  "cancelItem it ps =
     (case ps (item_id it) of
        None \<Rightarrow> ps
      | Some p \<Rightarrow>
          ps(item_id it \<mapsto> p\<lparr>quantity := quantity p + item_quantity it, status := Available\<rparr>))"

definition cancelItems :: "item list \<Rightarrow> products \<Rightarrow> products" where
  "cancelItems its ps = foldl (\<lambda>ps it. cancelItem it ps) ps its"

text \<open>\<^verbatim>\<open>router.patch("/:orderId/status", ...)\<close>\<close>

definition updateOrderStatus ::
  "object_id \<Rightarrow> status_request \<Rightarrow> date \<Rightarrow> store \<Rightarrow> response \<times> store" where
  "updateOrderStatus orderId req now s =
     (case parseStatus (req_status req) of
        None \<Rightarrow> (Error 400 InvalidOrderStatus, s)
      | Some target \<Rightarrow>
          (case orders s orderId of
             None \<Rightarrow> (Error 404 OrderNotFound, s)
           | Some ord \<Rightarrow>
               if order_status ord = Cancelled
               then (Error 400 CannotUpdateCancelledOrder, s)
               else
                 let ps' = (if target = Cancelled \<and> order_status ord \<noteq> Cancelled
                            then cancelItems (order_items ord) (products s)
                            else products s);
                     o1 = ord\<lparr>order_status := target\<rparr>;
                     o2 = (if req_trackingNumber req \<noteq> []
                           then o1\<lparr>order_trackingNumber := Some (trim (req_trackingNumber req))\<rparr>
                           else o1);
                     o3 = (if req_notes req \<noteq> []
                           then o2\<lparr>order_notes := Some (trim (req_notes req))\<rparr>
                           else o2);
                     o4 = (if target = Delivered then o3\<lparr>order_deliveryDate := now\<rparr> else o3)
                 in (Updated o4, s\<lparr>products := ps', orders := (orders s)(orderId \<mapsto> o4)\<rparr>)))"

text \<open>\<^verbatim>\<open>Order.findById\<close>\<close>

definition findOrderById :: "store \<Rightarrow> object_id \<Rightarrow> order option" where
  "findOrderById s oid = orders s oid"

subsection \<open>Notions used in the statements\<close>

text \<open>
  The quantity of one product ordered by a cart: the sum of the quantities of the cart
  items that refer to it. When a single item refers to the product, this is the quantity
  of that item.
\<close>

definition orderedQuantity :: "item list \<Rightarrow> object_id \<Rightarrow> number" where
  "orderedQuantity its pid =
     sum_list (map item_quantity (filter (\<lambda>it. item_id it = pid) its))"

text \<open>
  The preconditions of order creation as the specification lists them: customer fields
  non-empty after trimming, email and phone of the required shape, a non-empty item list,
  a positive total, a complete address, a payment method among Online and COD.
\<close>

definition meetsPreconditions :: "order_request \<Rightarrow> bool" where
  "meetsPreconditions req =
     (trim (username req) \<noteq> [] \<and> trim (fullName req) \<noteq> [] \<and>
      trim (email req) \<noteq> [] \<and> trim (phone req) \<noteq> [] \<and>
      test emailRegex (email req) \<and> test phoneRegex (phone req) \<and>
      items req \<noteq> [] \<and> 0 < totalAmount req \<and>
      street (address req) \<noteq> [] \<and> city (address req) \<noteq> [] \<and>
      state (address req) \<noteq> [] \<and> postalCode (address req) \<noteq> [] \<and>
      (paymentMethod req = ''Online'' \<or> paymentMethod req = ''COD''))"

definition validationErrors :: "error list" where
  "validationErrors =
     [CustomerInfoIncomplete, NoItems, InvalidTotalAmount, AddressIncomplete,
      InvalidPaymentMethod, InvalidEmailFormat, InvalidPhoneFormat]"

subsection \<open>Sample data\<close>

definition availableProduct :: "string \<Rightarrow> number \<Rightarrow> number \<Rightarrow> number \<Rightarrow> product" where
  "availableProduct n q pr off =
     \<lparr> name = n, quantity = q, price = pr, image_file = [], status = Available,
       category = Frames, offer = off \<rparr>"

definition soldOutProduct :: "string \<Rightarrow> number \<Rightarrow> number \<Rightarrow> product" where
  "soldOutProduct n pr off =
     \<lparr> name = n, quantity = 0, price = pr, image_file = [], status = NotAvailable,
       category = Bag, offer = off \<rparr>"

definition cartItem :: "object_id \<Rightarrow> string \<Rightarrow> number \<Rightarrow> number \<Rightarrow> number \<Rightarrow> item" where
  "cartItem i n q pr off =
     \<lparr> item_id = i, item_name = n, item_quantity = q, item_price = pr, item_offer = off \<rparr>"

definition customerRequest :: "item list \<Rightarrow> number \<Rightarrow> order_request" where
  "customerRequest its amount =
     \<lparr> username = '' asha '', fullName = ''Asha Rao'', email = ''Asha@Example.com'',
       phone = ''+91 98765-43210'', items = its, totalAmount = amount,
       address = \<lparr> street = ''12 Lake Road'', city = ''Pune'', state = ''MH'',
                   postalCode = ''411001'' \<rparr>,
       paymentMethod = ''COD'' \<rparr>"

text \<open>Three products (ids 1, 2, 3; no product has id 9) and no order.\<close>

definition shop :: store where
  "shop = \<lparr> products = [1 \<mapsto> availableProduct ''Frame'' 5 100 10,
                         2 \<mapsto> availableProduct ''Diya'' 1 20 0,
                         3 \<mapsto> soldOutProduct ''Bag'' 50 0],
            orders = Map.empty \<rparr>"

definition frameOrder :: order where
  "frameOrder =
     newOrder (customerRequest [cartItem 1 ''Frame'' 2 100 10, cartItem 9 ''Vase'' 1 5 0,
                                cartItem 3 ''Bag'' 0 50 0] 185) 0"

text \<open>The same products, with a cancelled order (id 7) and a pending one (id 8).\<close>

definition archive :: store where
  "archive = \<lparr> products = products shop,
               orders = [7 \<mapsto> frameOrder\<lparr>order_status := Cancelled\<rparr>, 8 \<mapsto> frameOrder] \<rparr>"

definition statusRequest :: "string \<Rightarrow> status_request" where
  "statusRequest x = \<lparr> req_status = x, req_trackingNumber = [], req_notes = [] \<rparr>"

text \<open>
  A run of the workflow: an order with an item of quantity 0 for product 1 (id 100), an
  order that buys the whole stock of product 1 (id 101), then the cancellation of the
  first order.
\<close>

definition afterZeroQuantityOrder :: store where
  "afterZeroQuantityOrder =
     snd (createOrder
            (customerRequest [cartItem 1 ''Frame'' 0 100 10, cartItem 2 ''Diya'' 1 20 0] 20)
            100 0 shop)"

definition afterSellOut :: store where
  "afterSellOut =
     snd (createOrder (customerRequest [cartItem 1 ''Frame'' 5 100 10] 450)
            101 0 afterZeroQuantityOrder)"

definition afterCancellation :: store where
  "afterCancellation = snd (updateOrderStatus 100 (statusRequest ''Cancelled'') 0 afterSellOut)"

text \<open>A cart whose first item is in stock and whose second item is not.\<close>

definition partlyStockedRequest :: order_request where
  "partlyStockedRequest =
     customerRequest [cartItem 1 ''Frame'' 2 100 10, cartItem 2 ''Diya'' 3 20 0] 240"

section \<open>Properties\<close>

subsection \<open>Auxiliary facts\<close>

lemma orderedQuantity_Cons:
  "orderedQuantity (it # its) pid =
     (if item_id it = pid then item_quantity it else 0) + orderedQuantity its pid"
  by (simp add: orderedQuantity_def)

lemma orderedQuantity_notin:
  "pid \<notin> item_id ` set its \<Longrightarrow> orderedQuantity its pid = 0"
  by (induction its) (simp_all add: orderedQuantity_def)

lemma reserveItem_success:
  assumes "reserveItem it ps = (None, ps')"
  shows "\<exists>p. ps (item_id it) = Some p \<and> status p = Available \<and>
             item_quantity it \<le> quantity p \<and> price p = item_price it \<and>
             offer p = item_offer it \<and>
             ps' = ps(item_id it \<mapsto>
                      p\<lparr>quantity := quantity p - item_quantity it,
                        status := (if quantity p - item_quantity it = 0 then NotAvailable
                                   else Available)\<rparr>)"
proof (cases "ps (item_id it)")
  case None
  with assms show ?thesis by (simp add: reserveItem_def)
next
  case (Some p)
  with assms show ?thesis
    by (simp add: reserveItem_def Let_def split: if_splits)
qed

lemma reserveItems_Cons_success:
  assumes "reserveItems (it # its) ps = (None, ps')"
  shows "\<exists>ps1. reserveItem it ps = (None, ps1) \<and> reserveItems its ps1 = (None, ps')"
proof (cases "reserveItem it ps")
  case (Pair e ps1)
  with assms show ?thesis by (cases e) simp_all
qed

lemma reserveItems_success:
  "reserveItems its ps = (None, ps') \<Longrightarrow>
     (pid \<in> item_id ` set its \<longrightarrow>
        (\<exists>p p'. ps pid = Some p \<and> ps' pid = Some p' \<and> 0 \<le> quantity p' \<and>
                quantity p' = quantity p - orderedQuantity its pid)) \<and>
     (pid \<notin> item_id ` set its \<longrightarrow> ps' pid = ps pid)"
proof (induction its arbitrary: ps)
  case Nil
  then show ?case by simp
next
  case (Cons it its)
  from reserveItems_Cons_success [OF Cons.prems] obtain ps1 where
    step: "reserveItem it ps = (None, ps1)" and rest: "reserveItems its ps1 = (None, ps')"
    by blast
  from reserveItem_success [OF step] obtain p where
    p: "ps (item_id it) = Some p" and le: "item_quantity it \<le> quantity p" and
    ps1: "ps1 = ps(item_id it \<mapsto>
                  p\<lparr>quantity := quantity p - item_quantity it,
                    status := (if quantity p - item_quantity it = 0 then NotAvailable
                               else Available)\<rparr>)"
    by blast
  define p1 where "p1 = p\<lparr>quantity := quantity p - item_quantity it,
                    status := (if quantity p - item_quantity it = 0 then NotAvailable
                               else Available)\<rparr>"
  have q1: "quantity p1 = quantity p - item_quantity it" by (simp add: p1_def)
  have ps1_here: "ps1 (item_id it) = Some p1" by (simp add: ps1 p1_def)
  have ps1_other: "\<And>k. k \<noteq> item_id it \<Longrightarrow> ps1 k = ps k" by (simp add: ps1)
  note IH = Cons.IH [OF rest]
  show ?case
  proof (cases "pid = item_id it")
    case here: True
    show ?thesis
    proof (cases "pid \<in> item_id ` set its")
      case True
      with IH obtain a p' where
        a: "ps1 pid = Some a" "ps' pid = Some p'" "0 \<le> quantity p'"
           "quantity p' = quantity a - orderedQuantity its pid"
        by blast
      from a(1) here ps1_here have "a = p1" by simp
      with a q1 have "quantity p' = quantity p - orderedQuantity (it # its) pid"
        by (simp add: orderedQuantity_Cons here)
      with a p here show ?thesis by simp
    next
      case False
      with IH have "ps' pid = ps1 pid" by simp
      with here ps1_here have p': "ps' pid = Some p1" by simp
      have "orderedQuantity (it # its) pid = item_quantity it"
        using orderedQuantity_notin [OF False] here by (simp add: orderedQuantity_Cons)
      with p' q1 le p here show ?thesis by simp
    qed
  next
    case there: False
    then have same: "ps1 pid = ps pid" by (simp add: ps1_other)
    have oq: "orderedQuantity (it # its) pid = orderedQuantity its pid"
      using there by (simp add: orderedQuantity_Cons)
    have mem: "pid \<in> item_id ` set (it # its) \<longleftrightarrow> pid \<in> item_id ` set its"
      using there by auto
    from IH show ?thesis
      unfolding mem oq same by simp
  qed
qed

lemma filter_distinct_key:
  "distinct (map f xs) \<Longrightarrow> x \<in> set xs \<Longrightarrow> filter (\<lambda>y. f y = f x) xs = [x]"
proof (induction xs)
  case Nil
  then show ?case by simp
next
  case (Cons a xs)
  show ?case
  proof (cases "x = a")
    case True
    from Cons.prems(1) have "\<forall>y\<in>set xs. f y \<noteq> f a" by (auto simp: image_iff)
    then have "filter (\<lambda>y. f y = f a) xs = []" by (simp add: filter_empty_conv)
    with True show ?thesis by simp
  next
    case False
    with Cons.prems have x: "x \<in> set xs" and d: "distinct (map f xs)" by simp_all
    from Cons.prems(1) x have "f a \<noteq> f x" by (auto simp: image_iff)
    with Cons.IH [OF d x] show ?thesis by simp
  qed
qed

lemma createOrder_Created:
  assumes "createOrder req oid now s = (Created oid' d, s')"
  shows "validateOrderInput req = None \<and>
         reserveItems (items req) (products s) = (None, products s') \<and>
         \<not> \<bar>calculatedTotal (items req) - totalAmount req\<bar> > 1 / 100 \<and>
         orders s' = (orders s)(oid \<mapsto> newOrder req now) \<and> oid' = oid"
proof (cases "validateOrderInput req")
  case (Some e)
  with assms show ?thesis by (simp add: createOrder_def)
next
  case None
  show ?thesis
  proof (cases "reserveItems (items req) (products s)")
    case (Pair e ps')
    show ?thesis
    proof (cases e)
      case (Some x)
      with assms None Pair show ?thesis by (simp add: createOrder_def)
    next
      case noerr: None
      with assms None Pair show ?thesis
        by (cases "\<bar>calculatedTotal (items req) - totalAmount req\<bar> > 1 / 100")
           (auto simp: createOrder_def)
    qed
  qed
qed


lemma customerRequest_valid:
  assumes "its \<noteq> []" and "0 < amount"
  shows "validateOrderInput (customerRequest its amount) = None"
proof -
  have a: "trim '' asha '' \<noteq> []" "trim ''Asha Rao'' \<noteq> []"
          "trim ''Asha@Example.com'' \<noteq> []" "trim ''+91 98765-43210'' \<noteq> []"
    by code_simp+
  have b: "test emailRegex ''Asha@Example.com''" by code_simp
  have c: "test phoneRegex ''+91 98765-43210''" by code_simp
  from assms a b c show ?thesis
    by (simp add: validateOrderInput_def customerRequest_def)
qed

lemma customerRequest_sel:
  "items (customerRequest its amount) = its"
  "totalAmount (customerRequest its amount) = amount"
  "email (customerRequest its amount) = ''Asha@Example.com''"
  "username (customerRequest its amount) = '' asha ''"
  by (simp_all add: customerRequest_def)

lemmas run_defs = customerRequest_sel createOrder_def reserveItem_def restoreItems_def
  restoreItem_def calculatedTotal_def shop_def cartItem_def availableProduct_def
  soldOutProduct_def Let_def

lemma cancelItems_Cons: "cancelItems (it # its) ps = cancelItems its (cancelItem it ps)"
  by (simp add: cancelItems_def)

lemma cancelItems_effect:
  "cancelItems its ps pid =
     (case ps pid of
        None \<Rightarrow> None
      | Some p \<Rightarrow>
          if pid \<in> item_id ` set its
          then Some (p\<lparr>quantity := quantity p + orderedQuantity its pid, status := Available\<rparr>)
          else Some p)"
proof (induction its arbitrary: ps)
  case Nil
  show ?case by (simp add: cancelItems_def split: option.split)
next
  case (Cons it its)
  show ?case
  proof (cases "ps pid")
    case None
    then have "cancelItem it ps pid = None"
      by (cases "ps (item_id it)") (auto simp: cancelItem_def)
    with None Cons.IH [of "cancelItem it ps"] show ?thesis
      by (simp add: cancelItems_Cons)
  next
    case (Some p)
    show ?thesis
    proof (cases "pid = item_id it")
      case True
      with Some have step: "cancelItem it ps pid =
          Some (p\<lparr>quantity := quantity p + item_quantity it, status := Available\<rparr>)"
        by (simp add: cancelItem_def)
      show ?thesis
      proof (cases "pid \<in> item_id ` set its")
        case True
        with Some step \<open>pid = item_id it\<close> Cons.IH [of "cancelItem it ps"] show ?thesis
          by (simp add: cancelItems_Cons orderedQuantity_Cons add.assoc)
      next
        case False
        with Some step \<open>pid = item_id it\<close> Cons.IH [of "cancelItem it ps"]
          orderedQuantity_notin [OF False] show ?thesis
          by (simp add: cancelItems_Cons orderedQuantity_Cons)
      qed
    next
      case False
      with Some have step: "cancelItem it ps pid = Some p"
        by (cases "ps (item_id it)") (auto simp: cancelItem_def)
      have mem: "pid \<in> item_id ` set (it # its) \<longleftrightarrow> pid \<in> item_id ` set its"
        using False by auto
      from Some step False Cons.IH [of "cancelItem it ps"] show ?thesis
        unfolding mem by (simp add: cancelItems_Cons orderedQuantity_Cons)
    qed
  qed
qed




lemma reserveItems_append:
  "reserveItems (its @ its') ps =
     (case reserveItems its ps of
        (Some e, ps') \<Rightarrow> (Some e, ps')
      | (None, ps') \<Rightarrow> reserveItems its' ps')"
proof (induction its arbitrary: ps)
  case Nil
  show ?case by simp
next
  case (Cons it its)
  show ?case
  proof (cases "reserveItem it ps")
    case (Pair e ps1)
    then show ?thesis by (cases e) (simp_all add: Cons.IH)
  qed
qed

lemma validateOrderInput_accepts:
  "validateOrderInput req = None \<Longrightarrow> meetsPreconditions req"
  unfolding meetsPreconditions_def validateOrderInput_def
  by (auto split: if_splits)

lemma validateOrderInput_errors:
  "validateOrderInput req = Some e \<Longrightarrow> e \<in> set validationErrors"
  unfolding validateOrderInput_def validationErrors_def
  by (auto split: if_splits)

lemma validateOrderInput_rejects:
  assumes "\<not> meetsPreconditions req"
  shows "\<exists>e \<in> set validationErrors. validateOrderInput req = Some e"
proof (cases "validateOrderInput req")
  case None
  with assms validateOrderInput_accepts show ?thesis by blast
next
  case (Some e)
  with validateOrderInput_errors show ?thesis by blast
qed

subsection \<open>Stock after a successful order\<close>

text \<open>
  C1. When order creation succeeds, every product a cart item refers to existed before
  the call and ends with a quantity that is not negative and equals its quantity before
  the call minus the quantity ordered of it (the quantity of the item, when the product
  ids of the cart are distinct). Once the stock of a product covers the quantity of an
  item, reserving the item does not end in the insufficient-stock error.
\<close>

theorem stock_never_negative:
  "(createOrder req oid now s = (Created oid' d, s') \<longrightarrow>
      (\<forall>it \<in> set (items req). \<exists>p p'.
          products s (item_id it) = Some p \<and> products s' (item_id it) = Some p' \<and>
          0 \<le> quantity p' \<and>
          quantity p' = quantity p - orderedQuantity (items req) (item_id it) \<and>
          (distinct (map item_id (items req)) \<longrightarrow>
             quantity p' = quantity p - item_quantity it))) \<and>
   (ps (item_id entry) = Some stocked \<and> item_quantity entry \<le> quantity stocked \<longrightarrow>
      fst (reserveItem entry ps) \<noteq> Some (InsufficientStock n q))"
proof (intro conjI impI ballI)
  fix it
  assume ok: "createOrder req oid now s = (Created oid' d, s')" and it: "it \<in> set (items req)"
  from createOrder_Created [OF ok]
  have r: "reserveItems (items req) (products s) = (None, products s')" by simp
  from it have "item_id it \<in> item_id ` set (items req)" by simp
  with reserveItems_success [OF r, of "item_id it"] obtain p p' where
    pp: "products s (item_id it) = Some p" "products s' (item_id it) = Some p'"
        "0 \<le> quantity p'"
        "quantity p' = quantity p - orderedQuantity (items req) (item_id it)"
    by blast
  have "distinct (map item_id (items req)) \<Longrightarrow>
          orderedQuantity (items req) (item_id it) = item_quantity it"
    using filter_distinct_key [of item_id "items req" it] it
    by (simp add: orderedQuantity_def)
  with pp show "\<exists>p p'. products s (item_id it) = Some p \<and>
      products s' (item_id it) = Some p' \<and> 0 \<le> quantity p' \<and>
      quantity p' = quantity p - orderedQuantity (items req) (item_id it) \<and>
      (distinct (map item_id (items req)) \<longrightarrow> quantity p' = quantity p - item_quantity it)"
    by simp
next
  assume "ps (item_id entry) = Some stocked \<and> item_quantity entry \<le> quantity stocked"
  then show "fst (reserveItem entry ps) \<noteq> Some (InsufficientStock n q)"
    by (simp add: reserveItem_def Let_def)
qed


theorem stock_never_negative_witness:
  "fst (createOrder (customerRequest [cartItem 1 ''Frame'' 2 100 10] 180) 100 0 shop) =
     Created 100 432000000 \<and>
   map_option quantity (products shop 1) = Some 5 \<and>
   map_option quantity
     (products (snd (createOrder (customerRequest [cartItem 1 ''Frame'' 2 100 10] 180) 100 0 shop)) 1) =
     Some 3 \<and>
   fst (reserveItem (cartItem 1 ''Frame'' 2 100 10) (products shop)) \<noteq>
     Some (InsufficientStock ''Frame'' 5)"
proof -
  let ?req = "customerRequest [cartItem 1 ''Frame'' 2 100 10] 180"
  let ?it = "cartItem 1 ''Frame'' 2 100 10"
  let ?s' = "snd (createOrder ?req 100 0 shop)"
  have ev: "fst (createOrder ?req 100 0 shop) = Created 100 432000000"
    by (simp add: customerRequest_valid run_defs)
  then have run: "createOrder ?req 100 0 shop = (Created 100 432000000, ?s')"
    by (simp add: prod_eq_iff)
  have pre: "products shop 1 = Some (availableProduct ''Frame'' 5 100 10)"
    by (simp add: shop_def)
  have guard: "products shop (item_id ?it) = Some (availableProduct ''Frame'' 5 100 10) \<and>
               item_quantity ?it \<le> quantity (availableProduct ''Frame'' 5 100 10)"
    by (simp add: shop_def cartItem_def availableProduct_def)
  note inst = stock_never_negative [where req = ?req and oid = 100 and now = 0 and s = shop
      and oid' = 100 and d = 432000000 and s' = ?s' and ps = "products shop" and entry = ?it
      and stocked = "availableProduct ''Frame'' 5 100 10" and n = "''Frame''" and q = 5]
  from inst run have every: "\<forall>it \<in> set (items ?req). \<exists>p p'.
      products shop (item_id it) = Some p \<and> products ?s' (item_id it) = Some p' \<and>
      0 \<le> quantity p' \<and>
      quantity p' = quantity p - orderedQuantity (items ?req) (item_id it) \<and>
      (distinct (map item_id (items ?req)) \<longrightarrow> quantity p' = quantity p - item_quantity it)"
    by blast
  have mem: "?it \<in> set (items ?req)" and dist: "distinct (map item_id (items ?req))"
    by (simp_all add: customerRequest_sel)
  have sel: "item_id ?it = 1" "item_quantity ?it = 2"
    by (simp_all add: cartItem_def)
  from every mem obtain p p' where
    pp: "products shop (item_id ?it) = Some p" "products ?s' (item_id ?it) = Some p'"
        "distinct (map item_id (items ?req)) \<longrightarrow> quantity p' = quantity p - item_quantity ?it"
    by blast
  from pp(1) pre have "quantity p = 5"
    unfolding sel by (simp add: availableProduct_def)
  with pp(3) dist have "quantity p' = 3"
    unfolding sel by simp
  with pp(2) have post: "map_option quantity (products ?s' 1) = Some 3"
    unfolding sel by simp
  from inst guard have "fst (reserveItem ?it (products shop)) \<noteq> Some (InsufficientStock ''Frame'' 5)"
    by blast
  with ev pre post show ?thesis
    by (simp add: availableProduct_def)
qed

subsection \<open>Status transitions\<close>

text \<open>
  C4. An order whose status is Cancelled rejects every status update whose target is one
  of Pending, Processing, Shipped, Delivered and Cancelled: the answer is the
  cannot-update-cancelled-order error with code 400, and the store (orders and
  products) is unchanged.
\<close>

theorem cancelled_is_terminal:
  assumes "orders s orderId = Some ord"
    and "order_status ord = Cancelled"
    and "req_status req \<in> set [''Pending'', ''Processing'', ''Shipped'', ''Delivered'', ''Cancelled'']"
  shows "updateOrderStatus orderId req now s = (Error 400 CannotUpdateCancelledOrder, s)"
proof -
  from assms(3) have "parseStatus (req_status req) \<noteq> None"
    by (auto simp: parseStatus_def)
  then obtain target where "parseStatus (req_status req) = Some target" by blast
  with assms(1,2) show ?thesis by (simp add: updateOrderStatus_def)
qed

theorem cancelled_is_terminal_witness:
  "map_option order_status (orders archive 7) = Some Cancelled \<and>
   updateOrderStatus 7 (statusRequest ''Delivered'') 0 archive =
     (Error 400 CannotUpdateCancelledOrder, archive) \<and>
   updateOrderStatus 7 (statusRequest ''Cancelled'') 0 archive =
     (Error 400 CannotUpdateCancelledOrder, archive)"
proof -
  have o: "orders archive 7 = Some (frameOrder\<lparr>order_status := Cancelled\<rparr>)"
    by (simp add: archive_def)
  have c: "order_status (frameOrder\<lparr>order_status := Cancelled\<rparr>) = Cancelled"
    by simp
  have t1: "req_status (statusRequest ''Delivered'') \<in>
      set [''Pending'', ''Processing'', ''Shipped'', ''Delivered'', ''Cancelled'']"
    by (simp add: statusRequest_def)
  have t2: "req_status (statusRequest ''Cancelled'') \<in>
      set [''Pending'', ''Processing'', ''Shipped'', ''Delivered'', ''Cancelled'']"
    by (simp add: statusRequest_def)
  from o cancelled_is_terminal [OF o c t1, of 0] cancelled_is_terminal [OF o c t2, of 0]
  show ?thesis by simp
qed

text \<open>
  C5. A status update to Cancelled of an order that is not cancelled succeeds; every
  product an item of the order refers to gets the quantities of those items added and
  its status set to Available, whatever the resulting quantity is (0 included); an item
  whose product does not exist changes nothing, and every other product is untouched.
\<close>

theorem cancellation_restores_stock:
  assumes "orders s orderId = Some ord"
    and "order_status ord \<noteq> Cancelled"
    and "req_status req = ''Cancelled''"
  shows "(\<exists>ord'. fst (updateOrderStatus orderId req now s) = Updated ord' \<and>
                 order_status ord' = Cancelled \<and>
                 orders (snd (updateOrderStatus orderId req now s)) orderId = Some ord') \<and>
         (\<forall>pid. products (snd (updateOrderStatus orderId req now s)) pid =
            (case products s pid of
               None \<Rightarrow> None
             | Some p \<Rightarrow>
                 if pid \<in> item_id ` set (order_items ord)
                 then Some (p\<lparr>quantity := quantity p + orderedQuantity (order_items ord) pid,
                             status := Available\<rparr>)
                 else Some p))"
proof -
  have ps: "parseStatus (req_status req) = Some Cancelled"
    by (simp add: assms(3) parseStatus_def)
  have prod: "products (snd (updateOrderStatus orderId req now s)) =
                cancelItems (order_items ord) (products s)"
    using assms(1,2) ps by (simp add: updateOrderStatus_def Let_def)
  have resp: "\<exists>ord'. fst (updateOrderStatus orderId req now s) = Updated ord' \<and>
                 order_status ord' = Cancelled \<and>
                 orders (snd (updateOrderStatus orderId req now s)) orderId = Some ord'"
    using assms(1,2) ps by (simp add: updateOrderStatus_def Let_def)
  from resp show ?thesis
    unfolding prod by (simp add: cancelItems_effect)
qed

theorem cancellation_restores_stock_witness:
  "map_option order_status (orders archive 8) = Some Pending \<and>
   map_option order_status (orders (snd (updateOrderStatus 8 (statusRequest ''Cancelled'') 0 archive)) 8) =
     Some Cancelled \<and>
   map_option (\<lambda>p. (quantity p, status p))
     (products (snd (updateOrderStatus 8 (statusRequest ''Cancelled'') 0 archive)) 1) =
     Some (7, Available) \<and>
   map_option (\<lambda>p. (quantity p, status p))
     (products (snd (updateOrderStatus 8 (statusRequest ''Cancelled'') 0 archive)) 3) =
     Some (0, Available) \<and>
   products (snd (updateOrderStatus 8 (statusRequest ''Cancelled'') 0 archive)) 9 = None"
proof -
  let ?run = "updateOrderStatus 8 (statusRequest ''Cancelled'') 0 archive"
  have o: "orders archive 8 = Some frameOrder"
    by (simp add: archive_def)
  have its: "order_items frameOrder =
      [cartItem 1 ''Frame'' 2 100 10, cartItem 9 ''Vase'' 1 5 0, cartItem 3 ''Bag'' 0 50 0]"
    by (simp add: frameOrder_def newOrder_def customerRequest_sel)
  have st: "order_status frameOrder = Pending"
    by (simp add: frameOrder_def newOrder_def)
  then have p: "order_status frameOrder \<noteq> Cancelled" by simp
  have t: "req_status (statusRequest ''Cancelled'') = ''Cancelled''"
    by (simp add: statusRequest_def)
  note inst = cancellation_restores_stock [OF o p t, of 0]
  from inst have a: "map_option order_status (orders (snd ?run) 8) = Some Cancelled"
    by auto
  from inst have b: "\<And>pid. products (snd ?run) pid =
            (case products archive pid of
               None \<Rightarrow> None
             | Some p \<Rightarrow>
                 if pid \<in> item_id ` set (order_items frameOrder)
                 then Some (p\<lparr>quantity := quantity p + orderedQuantity (order_items frameOrder) pid,
                             status := Available\<rparr>)
                 else Some p)"
    by blast
  have b1: "map_option (\<lambda>p. (quantity p, status p)) (products (snd ?run) 1) = Some (7, Available)"
    unfolding b its
    by (simp add: archive_def shop_def cartItem_def availableProduct_def orderedQuantity_def)
  have b3: "map_option (\<lambda>p. (quantity p, status p)) (products (snd ?run) 3) = Some (0, Available)"
    unfolding b its
    by (simp add: archive_def shop_def cartItem_def soldOutProduct_def orderedQuantity_def)
  have b9: "products (snd ?run) 9 = None"
    unfolding b its
    by (simp add: archive_def shop_def)
  from o st a b1 b3 b9 show ?thesis by simp
qed

subsection \<open>Reservation, total and validation\<close>



text \<open>
  C7. The reservation handles the cart items one after the other, each on the product
  collection the previous one left. For one item: an unknown product id gives the
  product-not-found error with the name of the item; a product that is not Available
  gives the not-available error; a stock below the requested quantity gives the
  insufficient-stock error with the stock of the product; a price or offer that differs
  from the product's gives the mismatch error; in all these cases the collection is
  unchanged. Otherwise the quantity of the product is decreased by the quantity of the
  item, its status becomes NotAvailable when the result is 0, and the product is stored.
\<close>

theorem reservation_per_item:
  "(ps (item_id it) = None \<longrightarrow>
      reserveItem it ps = (Some (ProductNotFound (item_name it)), ps)) \<and>
   (ps (item_id it) = Some p \<and> status p \<noteq> Available \<longrightarrow>
      reserveItem it ps = (Some (ProductNotAvailable (item_name it)), ps)) \<and>
   (ps (item_id it) = Some p \<and> status p = Available \<and> quantity p < item_quantity it \<longrightarrow>
      reserveItem it ps = (Some (InsufficientStock (item_name it) (quantity p)), ps)) \<and>
   (ps (item_id it) = Some p \<and> status p = Available \<and> item_quantity it \<le> quantity p \<and>
    (price p \<noteq> item_price it \<or> offer p \<noteq> item_offer it) \<longrightarrow>
      reserveItem it ps = (Some (PriceOrOfferMismatch (item_name it)), ps)) \<and>
   (ps (item_id it) = Some p \<and> status p = Available \<and> item_quantity it \<le> quantity p \<and>
    price p = item_price it \<and> offer p = item_offer it \<longrightarrow>
      reserveItem it ps =
        (None, ps(item_id it \<mapsto>
                 p\<lparr>quantity := quantity p - item_quantity it,
                   status := (if quantity p - item_quantity it = 0 then NotAvailable
                              else Available)\<rparr>))) \<and>
   (ps (item_id it) = None \<or>
    (ps (item_id it) = Some p \<and>
       (status p \<noteq> Available \<or> quantity p < item_quantity it \<or>
        price p \<noteq> item_price it \<or> offer p \<noteq> item_offer it)) \<longrightarrow>
      (\<exists>e. reserveItem it ps = (Some e, ps))) \<and>
   reserveItems (it # its) ps =
     (case reserveItem it ps of
        (Some e, ps') \<Rightarrow> (Some e, ps')
      | (None, ps') \<Rightarrow> reserveItems its ps') \<and>
   reserveItems (its @ its') ps =
     (case reserveItems its ps of
        (Some e, ps') \<Rightarrow> (Some e, ps')
      | (None, ps') \<Rightarrow> reserveItems its' ps')"
proof (intro conjI)
  show "reserveItems (its @ its') ps =
     (case reserveItems its ps of
        (Some e, ps') \<Rightarrow> (Some e, ps')
      | (None, ps') \<Rightarrow> reserveItems its' ps')"
    by (rule reserveItems_append)
qed (auto simp: reserveItem_def Let_def)

theorem reservation_per_item_witness:
  "reserveItem (cartItem 9 ''Vase'' 1 5 0) (products shop) =
     (Some (ProductNotFound ''Vase''), products shop) \<and>
   reserveItem (cartItem 3 ''Bag'' 1 50 0) (products shop) =
     (Some (ProductNotAvailable ''Bag''), products shop) \<and>
   reserveItem (cartItem 2 ''Diya'' 3 20 0) (products shop) =
     (Some (InsufficientStock ''Diya'' 1), products shop) \<and>
   reserveItem (cartItem 1 ''Frame'' 2 90 10) (products shop) =
     (Some (PriceOrOfferMismatch ''Frame''), products shop) \<and>
   reserveItem (cartItem 2 ''Diya'' 1 20 0) (products shop) =
     (None, (products shop)(2 \<mapsto> (availableProduct ''Diya'' 0 20 0)\<lparr>status := NotAvailable\<rparr>)) \<and>
   reserveItems ([cartItem 2 ''Diya'' 1 20 0] @ [cartItem 2 ''Diya'' 1 20 0]) (products shop) =
     (Some (ProductNotAvailable ''Diya''),
      (products shop)(2 \<mapsto> (availableProduct ''Diya'' 0 20 0)\<lparr>status := NotAvailable\<rparr>))"
proof -
  let ?ps = "products shop"
  have p1: "?ps 1 = Some (availableProduct ''Frame'' 5 100 10)"
   and p2: "?ps 2 = Some (availableProduct ''Diya'' 1 20 0)"
   and p3: "?ps 3 = Some (soldOutProduct ''Bag'' 50 0)"
   and p9: "?ps 9 = None"
    by (simp_all add: shop_def)
  have a: "reserveItem (cartItem 9 ''Vase'' 1 5 0) ?ps = (Some (ProductNotFound ''Vase''), ?ps)"
    using reservation_per_item [where ps = ?ps and it = "cartItem 9 ''Vase'' 1 5 0"] p9
    by (simp add: cartItem_def)
  have b: "reserveItem (cartItem 3 ''Bag'' 1 50 0) ?ps = (Some (ProductNotAvailable ''Bag''), ?ps)"
    using reservation_per_item [where ps = ?ps and it = "cartItem 3 ''Bag'' 1 50 0"
        and p = "soldOutProduct ''Bag'' 50 0"] p3
    by (simp add: cartItem_def soldOutProduct_def)
  have c: "reserveItem (cartItem 2 ''Diya'' 3 20 0) ?ps = (Some (InsufficientStock ''Diya'' 1), ?ps)"
    using reservation_per_item [where ps = ?ps and it = "cartItem 2 ''Diya'' 3 20 0"
        and p = "availableProduct ''Diya'' 1 20 0"] p2
    by (simp add: cartItem_def availableProduct_def)
  have d: "reserveItem (cartItem 1 ''Frame'' 2 90 10) ?ps = (Some (PriceOrOfferMismatch ''Frame''), ?ps)"
    using reservation_per_item [where ps = ?ps and it = "cartItem 1 ''Frame'' 2 90 10"
        and p = "availableProduct ''Frame'' 5 100 10"] p1
    by (simp add: cartItem_def availableProduct_def)
  have e: "reserveItem (cartItem 2 ''Diya'' 1 20 0) ?ps =
     (None, ?ps(2 \<mapsto> (availableProduct ''Diya'' 0 20 0)\<lparr>status := NotAvailable\<rparr>))"
    using reservation_per_item [where ps = ?ps and it = "cartItem 2 ''Diya'' 1 20 0"
        and p = "availableProduct ''Diya'' 1 20 0"] p2
    by (simp add: cartItem_def availableProduct_def)
  have f: "reserveItems ([cartItem 2 ''Diya'' 1 20 0] @ [cartItem 2 ''Diya'' 1 20 0]) ?ps =
     (Some (ProductNotAvailable ''Diya''),
      ?ps(2 \<mapsto> (availableProduct ''Diya'' 0 20 0)\<lparr>status := NotAvailable\<rparr>))"
    using reservation_per_item [where ps = ?ps and its = "[cartItem 2 ''Diya'' 1 20 0]"
        and its' = "[cartItem 2 ''Diya'' 1 20 0]"] e
    by (simp add: reserveItem_def cartItem_def availableProduct_def)
  from a b c d e f show ?thesis by blast
qed

text \<open>
  C8. A creation request that violates a precondition (a customer field empty after
  trimming, an email or phone of the wrong shape, no item, a total that is not positive,
  an incomplete address, a payment method other than Online and COD) is answered with
  one of the validation errors and code 400, and the store is returned unchanged.
\<close>

theorem validation_failure_no_mutation:
  assumes "\<not> meetsPreconditions req"
  shows "\<exists>e \<in> set validationErrors. createOrder req oid now s = (Error 400 e, s)"
proof -
  from validateOrderInput_rejects [OF assms] obtain e where
    "e \<in> set validationErrors" "validateOrderInput req = Some e" by blast
  then show ?thesis by (auto simp: createOrder_def)
qed

theorem validation_failure_no_mutation_witness:
  "\<not> meetsPreconditions (customerRequest [] 180) \<and>
   fst (createOrder (customerRequest [] 180) 100 0 shop) = Error 400 NoItems \<and>
   snd (createOrder (customerRequest [] 180) 100 0 shop) = shop"
proof -
  have v: "\<not> meetsPreconditions (customerRequest [] 180)"
    by (simp add: meetsPreconditions_def customerRequest_sel)
  from validation_failure_no_mutation [OF v, of 100 0 shop] obtain e where
    e: "createOrder (customerRequest [] 180) 100 0 shop = (Error 400 e, shop)"
    by blast
  have "validateOrderInput (customerRequest [] 180) = Some NoItems"
  proof -
    have "trim '' asha '' \<noteq> []" "trim ''Asha Rao'' \<noteq> []"
         "trim ''Asha@Example.com'' \<noteq> []" "trim ''+91 98765-43210'' \<noteq> []"
      by code_simp+
    then show ?thesis by (simp add: validateOrderInput_def customerRequest_def)
  qed
  then have "fst (createOrder (customerRequest [] 180) 100 0 shop) = Error 400 NoItems"
    by (simp add: createOrder_def)
  with v e show ?thesis by simp
qed

text \<open>
  C10. No check of order creation looks at the sign of an item quantity: validation
  gives the same verdict for any two non-empty item lists, and for an Available product
  with non-negative stock and matching price and offer, an item of quantity 0 passes the
  reservation and leaves the quantity of the product as it is, while an item of negative
  quantity passes the stock check and the reservation and leaves the product with more
  stock than before.
\<close>

theorem item_quantity_not_checked:
  "(its \<noteq> [] \<and> its' \<noteq> [] \<longrightarrow>
      validateOrderInput (req\<lparr>items := its\<rparr>) = validateOrderInput (req\<lparr>items := its'\<rparr>)) \<and>
   (ps (item_id it) = Some p \<and> status p = Available \<and> price p = item_price it \<and>
    offer p = item_offer it \<and> 0 \<le> quantity p \<and> item_quantity it = 0 \<longrightarrow>
      fst (reserveItem it ps) = None \<and>
      map_option quantity (snd (reserveItem it ps) (item_id it)) = Some (quantity p)) \<and>
   (ps (item_id it) = Some p \<and> status p = Available \<and> price p = item_price it \<and>
    offer p = item_offer it \<and> 0 \<le> quantity p \<and> item_quantity it < 0 \<longrightarrow>
      \<not> quantity p < item_quantity it \<and>
      fst (reserveItem it ps) = None \<and>
      map_option quantity (snd (reserveItem it ps) (item_id it)) =
        Some (quantity p - item_quantity it) \<and>
      quantity p < quantity p - item_quantity it)"
proof (intro conjI impI)
  assume "its \<noteq> [] \<and> its' \<noteq> []"
  then show "validateOrderInput (req\<lparr>items := its\<rparr>) = validateOrderInput (req\<lparr>items := its'\<rparr>)"
    by (simp add: validateOrderInput_def)
next
  assume a: "ps (item_id it) = Some p \<and> status p = Available \<and> price p = item_price it \<and>
    offer p = item_offer it \<and> 0 \<le> quantity p \<and> item_quantity it = 0"
  then show "fst (reserveItem it ps) = None"
    by (simp add: reserveItem_def Let_def)
  from a show "map_option quantity (snd (reserveItem it ps) (item_id it)) = Some (quantity p)"
    by (simp add: reserveItem_def Let_def)
next
  assume a: "ps (item_id it) = Some p \<and> status p = Available \<and> price p = item_price it \<and>
    offer p = item_offer it \<and> 0 \<le> quantity p \<and> item_quantity it < 0"
  then show nlt: "\<not> quantity p < item_quantity it" by simp
  from a nlt show "fst (reserveItem it ps) = None"
    by (simp add: reserveItem_def Let_def)
  from a nlt show "map_option quantity (snd (reserveItem it ps) (item_id it)) =
        Some (quantity p - item_quantity it)"
    by (simp add: reserveItem_def Let_def)
  from a show "quantity p < quantity p - item_quantity it" by simp
qed

theorem item_quantity_not_checked_witness:
  "validateOrderInput ((customerRequest [cartItem 1 ''Frame'' 2 100 10] 180)
      \<lparr>items := [cartItem 1 ''Frame'' (- 2) 100 10]\<rparr>) = None \<and>
   fst (reserveItem (cartItem 1 ''Frame'' 0 100 10) (products shop)) = None \<and>
   map_option quantity (snd (reserveItem (cartItem 1 ''Frame'' 0 100 10) (products shop)) 1) =
     Some 5 \<and>
   fst (reserveItem (cartItem 1 ''Frame'' (- 2) 100 10) (products shop)) = None \<and>
   map_option quantity (snd (reserveItem (cartItem 1 ''Frame'' (- 2) 100 10) (products shop)) 1) =
     Some 7"
proof -
  let ?ps = "products shop"
  let ?p = "availableProduct ''Frame'' 5 100 10"
  let ?zero = "cartItem 1 ''Frame'' 0 100 10"
  let ?neg = "cartItem 1 ''Frame'' (- 2) 100 10"
  let ?req = "customerRequest [cartItem 1 ''Frame'' 2 100 10] 180"
  have same: "validateOrderInput (?req\<lparr>items := [?neg]\<rparr>) =
              validateOrderInput (?req\<lparr>items := [cartItem 1 ''Frame'' 2 100 10]\<rparr>)"
    using item_quantity_not_checked [where its = "[?neg]"
        and its' = "[cartItem 1 ''Frame'' 2 100 10]" and req = ?req]
    by simp
  have "?req\<lparr>items := [cartItem 1 ''Frame'' 2 100 10]\<rparr> = ?req"
    by (simp add: customerRequest_def)
  with same have v: "validateOrderInput (?req\<lparr>items := [?neg]\<rparr>) = None"
    by (simp add: customerRequest_valid)
  have hz: "?ps (item_id ?zero) = Some ?p \<and> status ?p = Available \<and> price ?p = item_price ?zero \<and>
    offer ?p = item_offer ?zero \<and> 0 \<le> quantity ?p \<and> item_quantity ?zero = 0"
    by (simp add: shop_def cartItem_def availableProduct_def)
  have hn: "?ps (item_id ?neg) = Some ?p \<and> status ?p = Available \<and> price ?p = item_price ?neg \<and>
    offer ?p = item_offer ?neg \<and> 0 \<le> quantity ?p \<and> item_quantity ?neg < 0"
    by (simp add: shop_def cartItem_def availableProduct_def)
  from item_quantity_not_checked [where ps = ?ps and it = ?zero and p = ?p] hz
  have z: "fst (reserveItem ?zero ?ps) = None \<and>
      map_option quantity (snd (reserveItem ?zero ?ps) (item_id ?zero)) = Some (quantity ?p)"
    by blast
  from item_quantity_not_checked [where ps = ?ps and it = ?neg and p = ?p] hn
  have n: "fst (reserveItem ?neg ?ps) = None \<and>
      map_option quantity (snd (reserveItem ?neg ?ps) (item_id ?neg)) =
        Some (quantity ?p - item_quantity ?neg)"
    by blast
  have sel: "item_id ?zero = 1" "item_id ?neg = 1" "quantity ?p = 5" "item_quantity ?neg = - 2"
    by (simp_all add: cartItem_def availableProduct_def)
  from v z n show ?thesis
    unfolding sel by simp
qed

subsection \<open>Coherence of status and quantity, compensation\<close>

text \<open>
  The decrement of order creation keeps status and quantity coherent.
\<close>

lemma reserveItem_coherent:
  assumes "reserveItem it ps = (None, ps')"
  shows "\<exists>p'. ps' (item_id it) = Some p' \<and> (status p' = NotAvailable \<longleftrightarrow> quantity p' = 0)"
  using reserveItem_success [OF assms] by auto

text \<open>
  C2. The statement that after every mutation of a product by the workflow the status is
  NotAvailable exactly when the quantity is 0 does not hold for the cancellation: in the
  run below, order 100 holds an item of quantity 0 for product 1, order 101 buys the
  whole stock of product 1 (quantity 0, NotAvailable), and the cancellation of order 100
  leaves product 1 with quantity 0 and status Available.
\<close>

theorem cancellation_breaks_coherence:
  "fst (createOrder
          (customerRequest [cartItem 1 ''Frame'' 0 100 10, cartItem 2 ''Diya'' 1 20 0] 20)
          100 0 shop) = Created 100 432000000 \<and>
   fst (createOrder (customerRequest [cartItem 1 ''Frame'' 5 100 10] 450)
          101 0 afterZeroQuantityOrder) = Created 101 432000000 \<and>
   map_option (\<lambda>p. (quantity p, status p)) (products afterSellOut 1) = Some (0, NotAvailable) \<and>
   map_option order_status (orders afterCancellation 100) = Some Cancelled \<and>
   map_option (\<lambda>p. (quantity p, status p)) (products afterCancellation 1) = Some (0, Available)"
  by code_simp

text \<open>
  C3. The statement that a failed creation leaves every product as before the call does
  not hold: with a cart whose first item (product 1, quantity 2 of 5 in stock) is in
  stock and whose second item (product 2, quantity 3 of 1 in stock) is not, creation
  fails with the insufficient-stock error, product 1 is back at 5, and product 2, which
  was never decremented, ends at 4 instead of 1.
\<close>

theorem compensation_inflates_stock:
  "fst (createOrder partlyStockedRequest 100 0 shop) = Error 400 (InsufficientStock ''Diya'' 1) \<and>
   map_option quantity (products shop 1) = Some 5 \<and>
   map_option quantity (products shop 2) = Some 1 \<and>
   map_option quantity (products (snd (createOrder partlyStockedRequest 100 0 shop)) 1) = Some 5 \<and>
   map_option quantity (products (snd (createOrder partlyStockedRequest 100 0 shop)) 2) = Some 4"
  by (simp add: partlyStockedRequest_def customerRequest_valid run_defs)

subsection \<open>Reading a created order back\<close>

text \<open>
  C9 as stated (the stored customer fields equal the submitted ones) fails: the request
  below is accepted, and the stored email and username differ from the submitted ones.
\<close>

theorem round_trip_counterexample:
  "fst (createOrder (customerRequest [cartItem 1 ''Frame'' 2 100 10] 180) 100 0 shop) =
     Created 100 432000000 \<and>
   email (customerRequest [cartItem 1 ''Frame'' 2 100 10] 180) = ''Asha@Example.com'' \<and>
   map_option order_email
     (findOrderById (snd (createOrder (customerRequest [cartItem 1 ''Frame'' 2 100 10] 180) 100 0 shop)) 100) =
     Some ''asha@example.com'' \<and>
   username (customerRequest [cartItem 1 ''Frame'' 2 100 10] 180) = '' asha '' \<and>
   map_option order_username
     (findOrderById (snd (createOrder (customerRequest [cartItem 1 ''Frame'' 2 100 10] 180) 100 0 shop)) 100) =
     Some ''asha''"
proof -
  have "toLowerCase (trim ''Asha@Example.com'') = ''asha@example.com''"
       "trim '' asha '' = ''asha''"
    by code_simp+
  then show ?thesis
    by (simp add: customerRequest_valid run_defs findOrderById_def newOrder_def)
qed

text \<open>
  C9, amended. For every successfully created order, reading it back by the returned id
  gives an order whose items, address and payment method are the submitted ones, whose
  status is Pending, whose username, full name and phone are the submitted values
  trimmed, and whose email is the submitted value trimmed and in lower case.
\<close>

theorem created_order_round_trip:
  assumes "createOrder req oid now s = (Created oid' d, s')"
  shows "\<exists>ord. findOrderById s' oid' = Some ord \<and>
           order_items ord = items req \<and>
           order_address ord = address req \<and>
           order_paymentMethod ord = paymentMethod req \<and>
           order_status ord = Pending \<and>
           order_username ord = trim (username req) \<and>
           order_fullName ord = trim (fullName req) \<and>
           order_phone ord = trim (phone req) \<and>
           order_email ord = toLowerCase (trim (email req))"
  using createOrder_Created [OF assms]
  by (simp add: findOrderById_def newOrder_def)

theorem created_order_round_trip_witness:
  "fst (createOrder (customerRequest [cartItem 1 ''Frame'' 2 100 10] 180) 100 0 shop) =
     Created 100 432000000 \<and>
   map_option order_items
     (findOrderById (snd (createOrder (customerRequest [cartItem 1 ''Frame'' 2 100 10] 180) 100 0 shop)) 100) =
     Some [cartItem 1 ''Frame'' 2 100 10] \<and>
   map_option order_status
     (findOrderById (snd (createOrder (customerRequest [cartItem 1 ''Frame'' 2 100 10] 180) 100 0 shop)) 100) =
     Some Pending \<and>
   map_option order_paymentMethod
     (findOrderById (snd (createOrder (customerRequest [cartItem 1 ''Frame'' 2 100 10] 180) 100 0 shop)) 100) =
     Some ''COD''"
proof -
  let ?req = "customerRequest [cartItem 1 ''Frame'' 2 100 10] 180"
  let ?s' = "snd (createOrder ?req 100 0 shop)"
  have ev: "fst (createOrder ?req 100 0 shop) = Created 100 432000000"
    by (simp add: customerRequest_valid run_defs)
  then have run: "createOrder ?req 100 0 shop = (Created 100 432000000, ?s')"
    by (simp add: prod_eq_iff)
  from created_order_round_trip [OF run] obtain ord where
    ord: "findOrderById ?s' 100 = Some ord" "order_items ord = items ?req"
         "order_status ord = Pending" "order_paymentMethod ord = paymentMethod ?req"
    by blast
  have "paymentMethod ?req = ''COD''" by (simp add: customerRequest_def)
  with ev ord show ?thesis by (simp add: customerRequest_sel)
qed

end
